theory Spec2Isabelle
  imports Complex_Main "HOL-Library.Sublist"
begin

section \<open>Mental-Health-Assistant: the chat script \<^verbatim>\<open>streamlit_app_Version4.py\<close>\<close>

text \<open>
  The script is run from top to bottom once per user interaction. Its logic is the
  crisis-keyword check, the canned crisis reply, the call of the completion provider
  with the last six messages, and the list \<^verbatim>\<open>st.session_state.messages\<close>, which
  is the only state kept between runs.

  Python \<^verbatim>\<open>str\<close> values are modelled as \<^typ>\<open>string\<close>. The provider (the
  \<^verbatim>\<open>openai\<close> package), the configuration file and the interpreter's Unicode
  tables behind \<^verbatim>\<open>str.lower\<close> are not part of the script: they are parameters
  of the model.
\<close>

subsection \<open>Configuration (\<^verbatim>\<open>config.toml\<close>, lines 8-11)\<close>

text \<open>The keys of the three tables that the script reads.\<close>

record app_config =
  title :: string
  warning_message :: string
  crisis_hotline :: string
  crisis_text :: string

text \<open>
  \<^verbatim>\<open>temperature\<close> is a TOML float that the script hands on unchanged; its type is
  left open.
\<close>

record 'f model_config =
  default_model :: string
  max_tokens :: int
  temperature :: 'f

subsection \<open>Messages and the session state\<close>

text \<open>
  A message is the dict \<^verbatim>\<open>{"role": ..., "content": ...}\<close>; the roles the script
  writes are the strings \<^verbatim>\<open>system\<close>, \<^verbatim>\<open>user\<close> and \<^verbatim>\<open>assistant\<close>.
\<close>

record message =
  role :: string
  content :: string

text \<open>
  \<^verbatim>\<open>st.session_state\<close>: \<open>None\<close> when the key \<^verbatim>\<open>messages\<close> is absent (the
  first run of a session), otherwise the list stored under it.
\<close>

type_synonym session_state = "message list option"

subsection \<open>\<^verbatim>\<open>initialize_session_state\<close> (lines 49-76)\<close>

definition system_prompt :: "app_config \<Rightarrow> string" where
  "system_prompt cfg =
     ''\<newline>'' @
     ''        You are a helpful, empathetic mental health information assistant. \<newline>'' @
     ''        \<newline>'' @
     ''        YOUR ROLE:\<newline>'' @
     ''        - Provide general psychoeducation about mental health topics\<newline>'' @
     ''        - Offer supportive, validating responses\<newline>'' @
     ''        - Suggest evidence-based coping strategies\<newline>'' @
     ''        - Help users understand common mental health concepts\<newline>'' @
     ''        \<newline>'' @
     ''        CRITICAL SAFETY RULES:\<newline>'' @
     ''        - You are NOT a licensed therapist or crisis counselor\<newline>'' @
     ''        - You cannot provide diagnoses or treatment plans\<newline>'' @
     ''        - If a user mentions self-harm, suicide, or immediate danger, you MUST:\<newline>'' @
     ''          1. Acknowledge their pain\<newline>'' @
     ''          2. Provide the crisis hotline: '' @ crisis_hotline cfg @ ''\<newline>'' @
     ''          3. Encourage them to contact emergency services if in immediate danger\<newline>'' @
     ''          4. Keep the response brief and focused on safety\<newline>'' @
     ''        \<newline>'' @
     ''        Always include this disclaimer in your first response: '' @
       [CHR 0x22] @ warning_message cfg @ [CHR 0x22] @ ''\<newline>'' @
     ''        ''"

definition greeting :: "app_config \<Rightarrow> string" where
  "greeting cfg =
     ''Hello! I'm here to provide general mental health information and support. '' @
     warning_message cfg @ '' How can I help you today?''"

text \<open>
  The function writes \<^verbatim>\<open>st.session_state.messages\<close> only when the key is absent.
  The result is the list stored under the key when the function returns.
\<close>

definition initialize_session_state :: "app_config \<Rightarrow> session_state \<Rightarrow> message list" where
  "initialize_session_state cfg st =
     (case st of
        None \<Rightarrow>
          [\<lparr>role = ''system'', content = system_prompt cfg\<rparr>,
           \<lparr>role = ''assistant'', content = greeting cfg\<rparr>]
      | Some messages \<Rightarrow> messages)"

subsection \<open>\<^verbatim>\<open>contains_crisis_keywords\<close> (lines 97-104)\<close>

text \<open>
  A \<^typ>\<open>string\<close> holds the text in UTF-8: a \<^typ>\<open>char\<close> below 128 is an ASCII
  character, and the characters outside ASCII are runs of chars from 128 up. A phrase of
  ASCII characters occurs in the text exactly when its chars occur in the UTF-8 form.

  \<^verbatim>\<open>str.lower\<close> is a builtin of the language. It goes through the text
  character by character. An ASCII character becomes its lowercase whatever stands
  around it: \<^verbatim>\<open>A\<close> to \<^verbatim>\<open>Z\<close> (codes 65 to 90) become \<^verbatim>\<open>a\<close> to
  \<^verbatim>\<open>z\<close>, the others stay. What a character outside ASCII becomes is read from the
  interpreter's Unicode tables and may depend on the text before and after it (the
  final sigma); it may be an ASCII character (U+212A, the Kelvin sign, becomes
  \<^verbatim>\<open>k\<close>) or several characters (U+0130 becomes \<^verbatim>\<open>i\<close> and U+0307). Those
  tables are not part of the script: they are the parameter \<open>tbl\<close>, which gives, for
  each char from 128 up, the chars it contributes, from the text before it, the char
  and the text after it.
\<close>

definition lower_char :: "char \<Rightarrow> char" where
  "lower_char c =
     (let n = (of_char c :: nat) in if 65 \<le> n \<and> n \<le> 90 then char_of (n + 32) else c)"

type_synonym case_table = "string \<Rightarrow> char \<Rightarrow> string \<Rightarrow> string"

definition is_ascii :: "string \<Rightarrow> bool" where
  "is_ascii text = list_all (\<lambda>c. (of_char c :: nat) < 128) text"

fun lower_from :: "case_table \<Rightarrow> string \<Rightarrow> string \<Rightarrow> string" where
  "lower_from tbl seen [] = []"
| "lower_from tbl seen (c # rest) =
     (if (of_char c :: nat) < 128 then [lower_char c] else tbl seen c rest) @
     lower_from tbl (seen @ [c]) rest"

definition lower :: "case_table \<Rightarrow> string \<Rightarrow> string" where
  "lower tbl text = lower_from tbl [] text"

text \<open>Python's \<^verbatim>\<open>k in t\<close> on strings: \<open>k\<close> occurs in \<open>t\<close> at some position.\<close>

fun py_in :: "string \<Rightarrow> string \<Rightarrow> bool" where
  "py_in k [] = (k = [])"
| "py_in k (c # cs) = (prefix k (c # cs) \<or> py_in k cs)"

definition crisis_keywords :: "string list" where
  "crisis_keywords =
     [''kill myself'', ''suicide'', ''end it all'', ''want to die'',
      ''harm myself'', ''self harm'', ''hurt myself'', ''not want to live'']"

definition contains_crisis_keywords :: "case_table \<Rightarrow> string \<Rightarrow> bool" where
  "contains_crisis_keywords tbl text =
     (let text_lower = lower tbl text
      in list_ex (\<lambda>keyword. py_in keyword text_lower) crisis_keywords)"

subsection \<open>\<^verbatim>\<open>handle_crisis_response\<close> (lines 106-117)\<close>

definition handle_crisis_response :: "app_config \<Rightarrow> string" where
  "handle_crisis_response cfg =
     ''\<newline>'' @
     ''    I hear that you're in tremendous pain, and I'm deeply concerned about your safety.\<newline>'' @
     ''\<newline>'' @
     ''    **Please reach out for immediate help:**\<newline>'' @
     ''    - **Crisis Hotline:** '' @ crisis_hotline cfg @ ''\<newline>'' @
     ''    - **Crisis Text Line:** '' @ crisis_text cfg @ ''\<newline>'' @
     ''    - **Emergency Services:** 911\<newline>'' @
     ''\<newline>'' @
     ''    You don't have to go through this alone. There are people who want to help you right now.\<newline>'' @
     ''    ''"

subsection \<open>The completion provider\<close>

text \<open>
  An exception is known by whether it is an instance of \<^verbatim>\<open>Exception\<close> (a
  \<^verbatim>\<open>KeyboardInterrupt\<close> or \<^verbatim>\<open>SystemExit\<close> is not) and by its text
  \<^verbatim>\<open>str(e)\<close>.
\<close>

record exn =
  is_Exception :: bool
  exn_str :: string

text \<open>The keyword arguments of \<^verbatim>\<open>client.chat.completions.create\<close> (lines 85-90).\<close>

record 'f request =
  req_model :: string
  req_messages :: "message list"
  req_max_tokens :: int
  req_temperature :: 'f

text \<open>
  What lines 83-92 evaluate to: the text \<^verbatim>\<open>response.choices[0].message.content\<close>,
  or the exception raised on the way (building the client, the request itself, a
  response without choices). The provider is any function from the request to such an
  outcome.
\<close>

datatype provider_outcome = Completion string | Raises exn

type_synonym 'f provider = "'f request \<Rightarrow> provider_outcome"

subsection \<open>\<^verbatim>\<open>get_ai_response\<close> (lines 78-95)\<close>

definition fallback_marker :: string where
  "fallback_marker = ''I'm having trouble responding right now. Please try again later. Error: ''"

text \<open>
  The second argument and the second component of the result are the requests sent to
  the provider so far, in order: the call appends its request. The first component is
  the returned text, or the exception that \<^verbatim>\<open>except Exception\<close> does not catch.
\<close>

definition get_ai_response ::
  "'f model_config \<Rightarrow> 'f provider \<Rightarrow> message list \<Rightarrow> 'f request list \<Rightarrow>
     (exn + string) \<times> 'f request list" where
  "get_ai_response mc provider messages calls =
     (let req = \<lparr>req_model = default_model mc, req_messages = messages,
                 req_max_tokens = max_tokens mc, req_temperature = temperature mc\<rparr>
      in (case provider req of
            Completion text \<Rightarrow> Inr text
          | Raises e \<Rightarrow> if is_Exception e then Inr (fallback_marker @ exn_str e) else Inl e,
          calls @ [req]))"

subsection \<open>\<^verbatim>\<open>main\<close> (lines 119-182)\<close>

datatype py_error = NameError | IndexError | Propagated exn

text \<open>
  How a run of the script ends: at its last line, at \<^verbatim>\<open>st.rerun()\<close>, or with an
  exception.
\<close>

datatype run_end = Completed | Rerun | Raised py_error

text \<open>Lines 146-149, the body of the \<^verbatim>\<open>Clear Conversation\<close> button.\<close>

definition main_clear :: "message list \<Rightarrow> py_error + message list" where
  "main_clear messages =
     (case messages of
        [] \<Rightarrow> Inl IndexError
      | m0 # _ \<Rightarrow>
          Inr [m0, \<lparr>role = ''assistant'',
                    content = ''Conversation cleared. How can I help you today?''\<rparr>])"

text \<open>The slice \<^verbatim>\<open>xs[-n:]\<close> for \<open>n > 0\<close>: the last \<open>n\<close> elements, all of a shorter list.\<close>

definition py_last :: "nat \<Rightarrow> 'a list \<Rightarrow> 'a list" where
  "py_last n xs = drop (length xs - n) xs"

text \<open>
  Lines 169-174, the value of \<^verbatim>\<open>ai_response\<close>: \<open>messages\<close> is the list with the
  user's message already appended (line 164).
\<close>

definition main_ai_response ::
  "case_table \<Rightarrow> app_config \<Rightarrow> 'f model_config \<Rightarrow> 'f provider \<Rightarrow> string \<Rightarrow> message list \<Rightarrow>
     'f request list \<Rightarrow> (exn + string) \<times> 'f request list" where
  "main_ai_response tbl ac mc provider prompt messages calls =
     (if contains_crisis_keywords tbl prompt then (Inr (handle_crisis_response ac), calls)
      else (let recent_messages = py_last 6 messages
            in get_ai_response mc provider recent_messages calls))"

text \<open>Lines 164-182, the body of \<^verbatim>\<open>if prompt := st.chat_input(...)\<close>.\<close>

definition main_chat_input ::
  "case_table \<Rightarrow> app_config \<Rightarrow> 'f model_config \<Rightarrow> 'f provider \<Rightarrow> string \<Rightarrow> message list \<Rightarrow>
     'f request list \<Rightarrow> (message list \<times> 'f request list) \<times> run_end" where
  "main_chat_input tbl ac mc provider prompt messages calls =
     (let messages1 = messages @ [\<lparr>role = ''user'', content = prompt\<rparr>]
      in (case main_ai_response tbl ac mc provider prompt messages1 calls of
            (Inl e, calls') \<Rightarrow> ((messages1, calls'), Raised (Propagated e))
          | (Inr ai_response, calls') \<Rightarrow>
              ((messages1 @ [\<lparr>role = ''assistant'', content = ai_response\<rparr>], calls'),
               Rerun)))"

text \<open>What the widgets return in one run.\<close>

record ui =
  clear_clicked :: bool
  chat_input :: "string option"

text \<open>
  The state between runs: the session state and the requests sent to the provider so far.
\<close>

record 'f world =
  session :: session_state
  provider_calls :: "'f request list"

text \<open>
  Line 142 reads the global name \<^verbatim>\<open>api_key\<close>, which the script never binds.
  Its binding is the parameter \<open>api_key\<close>: \<open>None\<close> is the script as it is, where
  the read raises \<^verbatim>\<open>NameError\<close>; with a binding, line 143 writes an environment
  variable that nothing in the script reads.
\<close>

definition main ::
  "case_table \<Rightarrow> app_config \<Rightarrow> 'f model_config \<Rightarrow> string option \<Rightarrow> 'f provider \<Rightarrow> ui \<Rightarrow> 'f world \<Rightarrow>
     'f world \<times> run_end" where
  "main tbl ac mc api_key provider inp w =
     (let messages = initialize_session_state ac (session w)
      in (case api_key of
            None \<Rightarrow> (w\<lparr>session := Some messages\<rparr>, Raised NameError)
          | Some _ \<Rightarrow>
              if clear_clicked inp then
                (case main_clear messages of
                   Inl e \<Rightarrow> (w\<lparr>session := Some messages\<rparr>, Raised e)
                 | Inr messages' \<Rightarrow> (w\<lparr>session := Some messages'\<rparr>, Rerun))
              else
                (case chat_input inp of
                   None \<Rightarrow> (w\<lparr>session := Some messages\<rparr>, Completed)
                 | Some prompt \<Rightarrow>
                     if prompt = [] then (w\<lparr>session := Some messages\<rparr>, Completed)
                     else (case main_chat_input tbl ac mc provider prompt messages (provider_calls w) of
                             ((messages', calls'), e) \<Rightarrow>
                               (\<lparr>session = Some messages', provider_calls = calls'\<rparr>, e)))))"

text \<open>The states that runs of the script reach from a fresh session.\<close>

inductive reachable ::
  "case_table \<Rightarrow> app_config \<Rightarrow> 'f model_config \<Rightarrow> 'f world \<Rightarrow> bool"
  for tbl :: case_table and ac :: app_config and mc :: "'f model_config" where
  fresh: "reachable tbl ac mc \<lparr>session = None, provider_calls = []\<rparr>"
| run: "reachable tbl ac mc w \<Longrightarrow> main tbl ac mc api_key provider inp w = (w', e) \<Longrightarrow> reachable tbl ac mc w'"

subsection \<open>The invariant of the conversation\<close>

text \<open>
  The first message is the system message, and no later message has the role
  \<^verbatim>\<open>system\<close>.
\<close>

definition conversation_inv :: "message list \<Rightarrow> bool" where
  "conversation_inv ms \<longleftrightarrow>
     ms \<noteq> [] \<and> role (ms ! 0) = ''system'' \<and> (\<forall>m\<in>set (tl ms). role m \<noteq> ''system'')"

subsection \<open>A concrete session\<close>

text \<open>
  A configuration, a provider that answers every request, a provider that fails with a
  connection error, and the state after a list of prompts submitted one per run to a
  fresh session. The name \<^verbatim>\<open>api_key\<close> is bound in these runs, so that they reach
  the chat block.
\<close>

text \<open>
  A table with the two entries of the Unicode data that yield an ASCII character:
  U+212A (UTF-8 \<^verbatim>\<open>E2 84 AA\<close>) becomes \<^verbatim>\<open>k\<close>, and U+0130 (\<^verbatim>\<open>C4 B0\<close>)
  becomes \<^verbatim>\<open>i\<close> and U+0307 (\<^verbatim>\<open>CC 87\<close>). The first char of the character
  contributes the result, the others nothing. Every other char is left as it is.
\<close>

definition ex_tbl :: case_table where
  "ex_tbl seen c rest =
     (if c = CHR 0xE2 \<and> take 2 rest = [CHR 0x84, CHR 0xAA] then ''k''
      else if c = CHR 0x84 \<and> py_last 1 seen = [CHR 0xE2] \<and> take 1 rest = [CHR 0xAA] then []
      else if c = CHR 0xAA \<and> py_last 2 seen = [CHR 0xE2, CHR 0x84] then []
      else if c = CHR 0xC4 \<and> take 1 rest = [CHR 0xB0] then [CHR ''i'', CHR 0xCC, CHR 0x87]
      else if c = CHR 0xB0 \<and> py_last 1 seen = [CHR 0xC4] then []
      else [c])"

text \<open>A prompt with the Kelvin sign for the first letter of \<^verbatim>\<open>kill myself\<close>.\<close>

definition ex_kelvin_prompt :: string where
  "ex_kelvin_prompt = ''I want to '' @ [CHR 0xE2, CHR 0x84, CHR 0xAA] @ ''ill myself''"

definition ex_ac :: app_config where
  "ex_ac = \<lparr>title = ''Mental Health Assistant'',
            warning_message = ''I am not a substitute for professional care.'',
            crisis_hotline = ''988'', crisis_text = ''Text HOME to 741741''\<rparr>"

definition ex_mc :: "rat model_config" where
  "ex_mc = \<lparr>default_model = ''gpt-4o-mini'', max_tokens = 500, temperature = 7 / 10\<rparr>"

definition ex_provider :: "rat provider" where
  "ex_provider req = Completion (''Reply to: '' @ content (last (req_messages req)))"

definition ex_failing :: "rat provider" where
  "ex_failing req = Raises \<lparr>is_Exception = True, exn_str = ''Connection error.''\<rparr>"

definition ex_submit :: "rat world \<Rightarrow> string \<Rightarrow> rat world" where
  "ex_submit w prompt =
     fst (main ex_tbl ex_ac ex_mc (Some ''key'') ex_provider
            \<lparr>clear_clicked = False, chat_input = Some prompt\<rparr> w)"

definition ex_world :: "string list \<Rightarrow> rat world" where
  "ex_world prompts = foldl ex_submit \<lparr>session = None, provider_calls = []\<rparr> prompts"

definition ex_prompts :: "string list" where
  "ex_prompts = [''I feel stressed at work'', ''What helps with sleep?'',
                 ''Tell me about mindfulness'', ''How do I start?'', ''Thank you'']"

text \<open>The conversation after the first \<open>n\<close> of these prompts, written out.\<close>

definition ex_turn :: "string \<Rightarrow> message list" where
  "ex_turn p =
     [\<lparr>role = ''user'', content = p\<rparr>,
      \<lparr>role = ''assistant'', content = ''Reply to: '' @ p\<rparr>]"

definition ex_conversation :: "nat \<Rightarrow> message list" where
  "ex_conversation n =
     initialize_session_state ex_ac None @ concat (map ex_turn (take n ex_prompts))"

text \<open>A conversation whose first turn was answered with the crisis reply.\<close>

definition ex_after_crisis :: "message list" where
  "ex_after_crisis =
     initialize_session_state ex_ac None @
     [\<lparr>role = ''user'', content = ''I want to die''\<rparr>,
      \<lparr>role = ''assistant'', content = handle_crisis_response ex_ac\<rparr>]"

section \<open>Properties\<close>

subsection \<open>Auxiliary facts\<close>

lemma py_in_sublist: "py_in k t = sublist k t"
  by (induction t) (simp_all add: sublist_Cons_right)

lemma py_in_iff: "py_in k t \<longleftrightarrow> (\<exists>pre suf. t = pre @ k @ suf)"
  by (simp add: py_in_sublist sublist_def)

lemma lower_from_ascii_append:
  "is_ascii v \<Longrightarrow>
     lower_from tbl b (v @ suf) = map lower_char v @ lower_from tbl (b @ v) suf"
  by (induction v arbitrary: b) (simp_all add: is_ascii_def)

lemma lower_from_ascii: "is_ascii v \<Longrightarrow> lower_from tbl b v = map lower_char v"
  using lower_from_ascii_append [of v tbl b "[]"] by simp

lemma lower_ascii: "is_ascii text \<Longrightarrow> lower tbl text = map lower_char text"
  by (simp add: lower_def lower_from_ascii)

lemma lower_from_piece:
  "is_ascii v \<Longrightarrow>
     \<exists>p. lower_from tbl b (pre @ v @ suf) =
           p @ map lower_char v @ lower_from tbl (b @ pre @ v) suf"
proof (induction pre arbitrary: b)
  case Nil
  then show ?case by (simp add: lower_from_ascii_append)
next
  case (Cons c pre)
  from Cons.IH [OF Cons.prems, of "b @ [c]"] obtain p where
    "lower_from tbl (b @ [c]) (pre @ v @ suf) =
       p @ map lower_char v @ lower_from tbl ((b @ [c]) @ pre @ v) suf"
    by blast
  then have "lower_from tbl b ((c # pre) @ v @ suf) =
      ((if (of_char c :: nat) < 128 then [lower_char c] else tbl b c (pre @ v @ suf)) @ p) @
      map lower_char v @ lower_from tbl (b @ (c # pre) @ v) suf"
    by simp
  then show ?case by blast
qed

lemma lower_char_ascii: "(of_char (lower_char c) :: nat) < 128 \<longleftrightarrow> (of_char c :: nat) < 128"
  by (simp add: lower_char_def Let_def)

lemma is_ascii_lower_char: "is_ascii (map lower_char v) = is_ascii v"
  by (induction v) (simp_all add: is_ascii_def lower_char_ascii)

lemma is_ascii_crisis_keywords: "k \<in> set crisis_keywords \<Longrightarrow> is_ascii k"
proof -
  have "list_all is_ascii crisis_keywords"
    by code_simp
  then show "k \<in> set crisis_keywords \<Longrightarrow> is_ascii k"
    by (simp add: list_all_iff)
qed

text \<open>
  A piece of ASCII characters is lowercased in place, whatever stands before and after it.
\<close>

lemma lower_piece:
  assumes "is_ascii v"
  shows "\<exists>p s. lower tbl (pre @ v @ suf) = p @ map lower_char v @ s"
  unfolding lower_def using lower_from_piece [OF assms] by blast

lemma map_lower_char_split:
  "(\<exists>pre suf. map lower_char text = pre @ k @ suf) \<longleftrightarrow>
     (\<exists>pre v suf. text = pre @ v @ suf \<and> map lower_char v = k)"
proof
  assume "\<exists>pre suf. map lower_char text = pre @ k @ suf"
  then obtain pre suf where "map lower_char text = pre @ (k @ suf)"
    by auto
  then have "\<exists>a r. text = a @ r \<and> pre = map lower_char a \<and> k @ suf = map lower_char r"
    by (simp only: map_eq_append_conv)
  then obtain a r where a: "text = a @ r" and r: "map lower_char r = k @ suf"
    by auto
  from r have "\<exists>v b. r = v @ b \<and> k = map lower_char v \<and> suf = map lower_char b"
    by (simp only: map_eq_append_conv)
  then obtain v b where "r = v @ b" "k = map lower_char v"
    by auto
  with a have "text = a @ v @ b \<and> map lower_char v = k"
    by simp
  then show "\<exists>pre v suf. text = pre @ v @ suf \<and> map lower_char v = k"
    by blast
next
  assume "\<exists>pre v suf. text = pre @ v @ suf \<and> map lower_char v = k"
  then obtain pre v suf where "text = pre @ v @ suf" "map lower_char v = k"
    by blast
  then have "map lower_char text = map lower_char pre @ k @ map lower_char suf"
    by simp
  then show "\<exists>pre suf. map lower_char text = pre @ k @ suf"
    by blast
qed

lemma contains_crisis_keywords_set:
  "contains_crisis_keywords tbl text \<longleftrightarrow>
     (\<exists>k\<in>set crisis_keywords. \<exists>pre suf. lower tbl text = pre @ k @ suf)"
  by (simp add: contains_crisis_keywords_def list_ex_iff py_in_iff)

lemma contains_crisis_keywords_piece:
  assumes "k \<in> set crisis_keywords" and "text = pre @ v @ suf" and "map lower_char v = k"
  shows "contains_crisis_keywords tbl text"
proof -
  from assms(1,3) have "is_ascii v"
    using is_ascii_crisis_keywords is_ascii_lower_char by metis
  then obtain p s where "lower tbl (pre @ v @ suf) = p @ map lower_char v @ s"
    using lower_piece by blast
  with assms show ?thesis
    unfolding contains_crisis_keywords_set by blast
qed

lemma contains_crisis_keywords_ascii:
  assumes "is_ascii text"
  shows "contains_crisis_keywords tbl text \<longleftrightarrow>
     (\<exists>k\<in>set crisis_keywords. \<exists>pre v suf. text = pre @ v @ suf \<and> map lower_char v = k)"
  unfolding contains_crisis_keywords_set lower_ascii [OF assms] map_lower_char_split
  by (rule refl)

lemma main_ai_response_crisis:
  "contains_crisis_keywords tbl prompt \<Longrightarrow>
     main_ai_response tbl ac mc provider prompt messages calls = (Inr (handle_crisis_response ac), calls)"
  by (simp add: main_ai_response_def)

lemma main_ai_response_provider:
  "\<not> contains_crisis_keywords tbl prompt \<Longrightarrow>
     main_ai_response tbl ac mc provider prompt messages calls =
       get_ai_response mc provider (py_last 6 messages) calls"
  by (simp add: main_ai_response_def)

lemma snd_get_ai_response:
  "snd (get_ai_response mc provider messages calls) =
     calls @ [\<lparr>req_model = default_model mc, req_messages = messages,
               req_max_tokens = max_tokens mc, req_temperature = temperature mc\<rparr>]"
  by (simp add: get_ai_response_def Let_def)

lemma calls_main_chat_input:
  "snd (fst (main_chat_input tbl ac mc provider prompt messages calls)) =
     snd (main_ai_response tbl ac mc provider prompt (messages @ [\<lparr>role = ''user'', content = prompt\<rparr>]) calls)"
  by (simp add: main_chat_input_def Let_def split: prod.splits sum.splits)

lemma py_last_snoc: "0 < n \<Longrightarrow> py_last n (xs @ [x]) = py_last (n - 1) xs @ [x]"
  by (simp add: py_last_def)

lemma main_api_key_unbound:
  "main tbl ac mc None provider inp w =
     (w\<lparr>session := Some (initialize_session_state ac (session w))\<rparr>, Raised NameError)"
  by (simp add: main_def Let_def)

lemma conversation_inv_init: "conversation_inv (initialize_session_state ac None)"
  by (simp add: conversation_inv_def initialize_session_state_def)

lemma conversation_inv_clear:
  "conversation_inv ms \<Longrightarrow> main_clear ms = Inr ms' \<Longrightarrow> conversation_inv ms'"
  by (cases ms) (auto simp: conversation_inv_def main_clear_def)

lemma conversation_inv_snoc:
  "conversation_inv ms \<Longrightarrow> role m \<noteq> ''system'' \<Longrightarrow> conversation_inv (ms @ [m])"
  by (cases ms) (auto simp: conversation_inv_def)

lemma conversation_inv_chat:
  assumes "conversation_inv ms"
    and "main_chat_input tbl ac mc provider prompt ms cs = ((ms', cs'), e)"
  shows "conversation_inv ms'"
proof -
  let ?u = "\<lparr>role = ''user'', content = prompt\<rparr>"
  have u: "conversation_inv (ms @ [?u])"
    using assms(1) by (rule conversation_inv_snoc) simp
  obtain r cs1 where r: "main_ai_response tbl ac mc provider prompt (ms @ [?u]) cs = (r, cs1)"
    using prod.exhaust by blast
  show ?thesis
  proof (cases r)
    case (Inl x)
    with assms(2) r have "ms' = ms @ [?u]"
      by (simp add: main_chat_input_def Let_def)
    with u show ?thesis by simp
  next
    case (Inr reply)
    with assms(2) r have "ms' = (ms @ [?u]) @ [\<lparr>role = ''assistant'', content = reply\<rparr>]"
      by (simp add: main_chat_input_def Let_def)
    moreover have "conversation_inv ((ms @ [?u]) @ [\<lparr>role = ''assistant'', content = reply\<rparr>])"
      using u by (rule conversation_inv_snoc) simp
    ultimately show ?thesis by simp
  qed
qed

lemma conversation_inv_main:
  assumes "\<And>ms. session w = Some ms \<Longrightarrow> conversation_inv ms"
    and "main tbl ac mc api_key provider inp w = (w', e)"
    and "session w' = Some ms'"
  shows "conversation_inv ms'"
proof -
  let ?init = "initialize_session_state ac (session w)"
  have init: "conversation_inv ?init"
  proof (cases "session w")
    case None
    then show ?thesis by (simp add: conversation_inv_init)
  next
    case (Some ms)
    with assms(1) show ?thesis by (simp add: initialize_session_state_def)
  qed
  show ?thesis
  proof (cases api_key)
    case None
    with assms(2,3) init show ?thesis by (auto simp: main_def Let_def)
  next
    case (Some k)
    show ?thesis
    proof (cases "clear_clicked inp")
      case True
      with Some assms(2,3) init show ?thesis
        by (auto simp: main_def Let_def split: sum.splits dest: conversation_inv_clear)
    next
      case False
      show ?thesis
      proof (cases "chat_input inp")
        case None
        with False Some assms(2,3) init show ?thesis by (auto simp: main_def Let_def)
      next
        case (Some prompt)
        with False \<open>api_key = Some k\<close> assms(2,3) init show ?thesis
          by (auto simp: main_def Let_def split: if_splits prod.splits dest: conversation_inv_chat)
      qed
    qed
  qed
qed

lemma reachable_conversation_inv:
  "reachable tbl ac mc w \<Longrightarrow> session w = Some ms \<Longrightarrow> conversation_inv ms"
proof (induction arbitrary: ms rule: reachable.induct)
  case fresh
  then show ?case by simp
next
  case (run w api_key provider inp w' e)
  from run.IH run.hyps(2) run.prems show ?case
    by (rule conversation_inv_main)
qed

lemma reachable_main:
  "reachable tbl ac mc w \<Longrightarrow> reachable tbl ac mc (fst (main tbl ac mc api_key provider inp w))"
  by (rule reachable.run [where e = "snd (main tbl ac mc api_key provider inp w)"]) simp_all

lemma set_drop_tl: "0 < k \<Longrightarrow> set (drop k xs) \<subseteq> set (tl xs)"
  by (cases k) (simp_all add: drop_Suc set_drop_subset)

lemma window_system:
  assumes "conversation_inv ms" and "role u \<noteq> ''system''"
  shows "ms ! 0 \<in> set (py_last 6 (ms @ [u])) \<longleftrightarrow> length ms < 6"
proof (cases "length ms < 6")
  case True
  then have "py_last 6 (ms @ [u]) = ms @ [u]" by (simp add: py_last_def)
  moreover from assms(1) have "ms ! 0 \<in> set ms"
    by (cases ms) (simp_all add: conversation_inv_def)
  ultimately show ?thesis using True by simp
next
  case False
  then have "py_last 6 (ms @ [u]) = drop (length ms - 5) ms @ [u]"
    by (simp add: py_last_def)
  moreover from False have "set (drop (length ms - 5) ms) \<subseteq> set (tl ms)"
    by (intro set_drop_tl) simp
  ultimately have "\<forall>m\<in>set (py_last 6 (ms @ [u])). role m \<noteq> ''system''"
    using assms by (auto simp: conversation_inv_def)
  moreover from assms(1) have "role (ms ! 0) = ''system''"
    by (simp add: conversation_inv_def)
  ultimately show ?thesis using False by auto
qed

subsection \<open>The concrete session, evaluated\<close>

lemma ex_prompts_not_crisis:
  "\<not> contains_crisis_keywords ex_tbl ''I feel stressed at work''"
  "\<not> contains_crisis_keywords ex_tbl ''What helps with sleep?''"
  "\<not> contains_crisis_keywords ex_tbl ''Tell me about mindfulness''"
  "\<not> contains_crisis_keywords ex_tbl ''How do I start?''"
  "\<not> contains_crisis_keywords ex_tbl ''Thank you''"
  by code_simp+

lemma last_py_last_snoc: "last (py_last 6 (xs @ [x])) = x"
  by (simp add: py_last_snoc)

lemma ex_submit_eval:
  assumes "\<not> contains_crisis_keywords ex_tbl p" and "p \<noteq> []"
    and "initialize_session_state ex_ac (session w) = ms"
  shows "ex_submit w p =
           \<lparr>session = Some (ms @ ex_turn p),
            provider_calls = provider_calls w @
              [\<lparr>req_model = ''gpt-4o-mini'',
                req_messages = py_last 6 (ms @ [\<lparr>role = ''user'', content = p\<rparr>]),
                req_max_tokens = 500, req_temperature = 7 / 10\<rparr>]\<rparr>"
  using assms
  by (simp add: ex_submit_def main_def main_chat_input_def main_ai_response_def
      get_ai_response_def ex_provider_def ex_mc_def ex_turn_def Let_def last_py_last_snoc)

lemma session_ex_world_0: "session (ex_world []) = None"
  by (simp add: ex_world_def)

lemma ex_world_snoc: "ex_world (ps @ [p]) = ex_submit (ex_world ps) p"
  by (simp add: ex_world_def)

lemma reachable_ex_world: "reachable ex_tbl ex_ac ex_mc (ex_world ps)"
proof (induction ps rule: rev_induct)
  case Nil
  show ?case by (simp add: ex_world_def reachable.fresh)
next
  case (snoc p ps)
  then show ?case
    unfolding ex_world_snoc ex_submit_def by (rule reachable_main)
qed

lemma session_ex_world:
  assumes "ps \<noteq> []" and "\<forall>p\<in>set ps. \<not> contains_crisis_keywords ex_tbl p \<and> p \<noteq> []"
  shows "session (ex_world ps) =
           Some (initialize_session_state ex_ac None @ concat (map ex_turn ps))"
  using assms
proof (induction ps rule: rev_induct)
  case Nil
  then show ?case by simp
next
  case (snoc p ps)
  then have p: "\<not> contains_crisis_keywords ex_tbl p" "p \<noteq> []"
    by simp_all
  show ?case
  proof (cases "ps = []")
    case True
    have "ex_world [p] = ex_submit (ex_world []) p"
      using ex_world_snoc [of "[]" p] by simp
    with True show ?thesis
      by (simp add: ex_submit_eval [OF p refl] session_ex_world_0)
  next
    case False
    with snoc have "session (ex_world ps) =
        Some (initialize_session_state ex_ac None @ concat (map ex_turn ps))"
      by simp
    then show ?thesis
      by (simp add: ex_world_snoc ex_submit_eval [OF p refl] initialize_session_state_def)
  qed
qed

lemma session_ex_world_take:
  "0 < n \<Longrightarrow> session (ex_world (take n ex_prompts)) = Some (ex_conversation n)"
  unfolding ex_conversation_def
  by (rule session_ex_world)
    (auto simp: ex_prompts_def ex_prompts_not_crisis dest!: in_set_takeD)

lemma window_10:
  assumes "length messages = 10"
  shows "py_last 6 (messages @ [u]) =
           [messages ! 5, messages ! 6, messages ! 7, messages ! 8, messages ! 9, u]"
proof -
  have "drop 5 messages = drop 5 (map (nth messages) [0..<10])"
    using map_nth [of messages] assms by simp
  also have "\<dots> = map (nth messages) [5..<10]"
    by (simp add: drop_map)
  also have "\<dots> = [messages ! 5, messages ! 6, messages ! 7, messages ! 8, messages ! 9]"
    by (simp add: upt_rec)
  finally show ?thesis
    using assms by (simp add: py_last_def)
qed

lemma ex_conversation_2:
  "ex_conversation 2 =
     [\<lparr>role = ''system'', content = system_prompt ex_ac\<rparr>,
      \<lparr>role = ''assistant'', content = greeting ex_ac\<rparr>,
      \<lparr>role = ''user'', content = ''I feel stressed at work''\<rparr>,
      \<lparr>role = ''assistant'', content = ''Reply to: I feel stressed at work''\<rparr>,
      \<lparr>role = ''user'', content = ''What helps with sleep?''\<rparr>,
      \<lparr>role = ''assistant'', content = ''Reply to: What helps with sleep?''\<rparr>]"
  by (simp add: ex_conversation_def ex_prompts_def ex_turn_def initialize_session_state_def)

lemma ex_conversation_4:
  "ex_conversation 4 =
     [\<lparr>role = ''system'', content = system_prompt ex_ac\<rparr>,
      \<lparr>role = ''assistant'', content = greeting ex_ac\<rparr>,
      \<lparr>role = ''user'', content = ''I feel stressed at work''\<rparr>,
      \<lparr>role = ''assistant'', content = ''Reply to: I feel stressed at work''\<rparr>,
      \<lparr>role = ''user'', content = ''What helps with sleep?''\<rparr>,
      \<lparr>role = ''assistant'', content = ''Reply to: What helps with sleep?''\<rparr>,
      \<lparr>role = ''user'', content = ''Tell me about mindfulness''\<rparr>,
      \<lparr>role = ''assistant'', content = ''Reply to: Tell me about mindfulness''\<rparr>,
      \<lparr>role = ''user'', content = ''How do I start?''\<rparr>,
      \<lparr>role = ''assistant'', content = ''Reply to: How do I start?''\<rparr>]"
  by (simp add: ex_conversation_def ex_prompts_def ex_turn_def initialize_session_state_def)

lemma window_main_chat_input:
  "\<not> contains_crisis_keywords tbl prompt \<Longrightarrow>
     req_messages (last (snd (fst (main_chat_input tbl ac mc provider prompt messages calls)))) =
       py_last 6 (messages @ [\<lparr>role = ''user'', content = prompt\<rparr>])"
  by (simp add: calls_main_chat_input main_ai_response_provider snd_get_ai_response)

lemma length_ex_conversation_4: "length (ex_conversation 4) = 10"
  by (simp add: ex_conversation_4)

text \<open>
  The two examples of the specification, and two texts with a character outside ASCII:
  the Kelvin sign is lowercased to \<^verbatim>\<open>k\<close>, so that the phrase occurs; U+0130 is
  lowercased to \<^verbatim>\<open>i\<close> and U+0307, so that \<^verbatim>\<open>suicide\<close> does not occur.
\<close>

lemma contains_crisis_keywords_examples:
  "contains_crisis_keywords ex_tbl ''I want to KILL MYSELF''"
  "\<not> contains_crisis_keywords ex_tbl ''I had a rough day''"
  "lower ex_tbl ex_kelvin_prompt = ''i want to kill myself''"
  "contains_crisis_keywords ex_tbl ex_kelvin_prompt"
  "\<not> contains_crisis_keywords ex_tbl (''su'' @ [CHR 0xC4, CHR 0xB0] @ ''cide'')"
  by code_simp+

section \<open>The claims\<close>

text \<open>
  Claim C1. When the prompt of the turn is flagged by \<open>contains_crisis_keywords\<close>, the
  reply is the crisis template and no request is sent to the provider: the list of
  requests is unchanged, whatever the provider would have answered or raised. This
  holds for the value of \<^verbatim>\<open>ai_response\<close> (lines 169-174), for the whole chat
  block, which appends the prompt and the template, and for a whole run of
  \<open>main\<close> with that prompt.
\<close>

theorem crisis_reply_without_provider:
  "contains_crisis_keywords tbl prompt \<Longrightarrow>
     main_ai_response tbl ac mc provider prompt messages calls =
       (Inr (handle_crisis_response ac), calls) \<and>
     main_chat_input tbl ac mc provider prompt messages calls =
       ((messages @ [\<lparr>role = ''user'', content = prompt\<rparr>,
                     \<lparr>role = ''assistant'', content = handle_crisis_response ac\<rparr>], calls),
        Rerun) \<and>
     (chat_input inp = Some prompt \<longrightarrow>
        provider_calls (fst (main tbl ac mc api_key provider inp w)) = provider_calls w)"
proof (intro conjI impI)
  assume c: "contains_crisis_keywords tbl prompt"
  show "main_ai_response tbl ac mc provider prompt messages calls =
       (Inr (handle_crisis_response ac), calls)"
    using c by (rule main_ai_response_crisis)
  show chat: "main_chat_input tbl ac mc provider prompt messages calls =
       ((messages @ [\<lparr>role = ''user'', content = prompt\<rparr>,
                     \<lparr>role = ''assistant'', content = handle_crisis_response ac\<rparr>], calls),
        Rerun)" for messages calls
    by (simp add: main_chat_input_def Let_def main_ai_response_crisis [OF c])
  assume "chat_input inp = Some prompt"
  then show "provider_calls (fst (main tbl ac mc api_key provider inp w)) = provider_calls w"
    by (simp add: main_def Let_def chat split: option.splits sum.splits)
qed

text \<open>
  At a flagged prompt and a provider that would raise, and at the prompt with the Kelvin
  sign, which the table flags.
\<close>

theorem crisis_reply_without_provider_witness:
  "contains_crisis_keywords ex_tbl ''I want to KILL MYSELF'' \<and>
   main_ai_response ex_tbl ex_ac ex_mc ex_failing ''I want to KILL MYSELF''
       (ex_conversation 2 @ [\<lparr>role = ''user'', content = ''I want to KILL MYSELF''\<rparr>]) [] =
     (Inr (handle_crisis_response ex_ac), []) \<and>
   main_chat_input ex_tbl ex_ac ex_mc ex_failing ''I want to KILL MYSELF'' (ex_conversation 2) [] =
     ((ex_conversation 2 @
         [\<lparr>role = ''user'', content = ''I want to KILL MYSELF''\<rparr>,
          \<lparr>role = ''assistant'', content = handle_crisis_response ex_ac\<rparr>], []),
      Rerun) \<and>
   provider_calls
     (fst (main ex_tbl ex_ac ex_mc (Some ''key'') ex_failing
             \<lparr>clear_clicked = False, chat_input = Some ''I want to KILL MYSELF''\<rparr>
             \<lparr>session = Some (ex_conversation 2), provider_calls = []\<rparr>)) = [] \<and>
   contains_crisis_keywords ex_tbl ex_kelvin_prompt \<and>
   main_chat_input ex_tbl ex_ac ex_mc ex_failing ex_kelvin_prompt (ex_conversation 2) [] =
     ((ex_conversation 2 @
         [\<lparr>role = ''user'', content = ex_kelvin_prompt\<rparr>,
          \<lparr>role = ''assistant'', content = handle_crisis_response ex_ac\<rparr>], []),
      Rerun)"
proof -
  have c: "contains_crisis_keywords ex_tbl ''I want to KILL MYSELF''"
    by code_simp
  have k: "contains_crisis_keywords ex_tbl ex_kelvin_prompt"
    by code_simp
  from crisis_reply_without_provider [OF c,
      where ac = ex_ac and mc = ex_mc and provider = ex_failing
        and messages = "ex_conversation 2" and calls = "[]" and api_key = "Some ''key''"
        and inp = "\<lparr>clear_clicked = False, chat_input = Some ''I want to KILL MYSELF''\<rparr>"
        and w = "\<lparr>session = Some (ex_conversation 2), provider_calls = []\<rparr>"]
    crisis_reply_without_provider [OF c,
      where ac = ex_ac and mc = ex_mc and provider = ex_failing
        and messages = "ex_conversation 2 @
          [\<lparr>role = ''user'', content = ''I want to KILL MYSELF''\<rparr>]" and calls = "[]"]
    crisis_reply_without_provider [OF k,
      where ac = ex_ac and mc = ex_mc and provider = ex_failing
        and messages = "ex_conversation 2" and calls = "[]"]
  show ?thesis using c k by simp
qed

text \<open>
  Claim C2. \<open>contains_crisis_keywords\<close> is true exactly when one of the eight phrases
  occurs in the lowercased text, whatever the interpreter's tables give for the
  characters outside ASCII. In particular it is true for every text that holds one of
  the phrases in any case of its letters; and on a text of ASCII characters it is true
  exactly when the text holds such a piece, so false when it holds none.
\<close>

theorem contains_crisis_keywords_iff:
  "(contains_crisis_keywords tbl text \<longleftrightarrow>
      (\<exists>k\<in>set [''kill myself'', ''suicide'', ''end it all'', ''want to die'',
                ''harm myself'', ''self harm'', ''hurt myself'', ''not want to live''].
         \<exists>pre suf. lower tbl text = pre @ k @ suf)) \<and>
   ((\<exists>k\<in>set [''kill myself'', ''suicide'', ''end it all'', ''want to die'',
                ''harm myself'', ''self harm'', ''hurt myself'', ''not want to live''].
         \<exists>pre v suf. text = pre @ v @ suf \<and> map lower_char v = k) \<longrightarrow>
      contains_crisis_keywords tbl text) \<and>
   (is_ascii text \<longrightarrow>
      (contains_crisis_keywords tbl text \<longleftrightarrow>
         (\<exists>k\<in>set [''kill myself'', ''suicide'', ''end it all'', ''want to die'',
                   ''harm myself'', ''self harm'', ''hurt myself'', ''not want to live''].
            \<exists>pre v suf. text = pre @ v @ suf \<and> map lower_char v = k)))"
proof (intro conjI impI)
  show "contains_crisis_keywords tbl text \<longleftrightarrow>
      (\<exists>k\<in>set [''kill myself'', ''suicide'', ''end it all'', ''want to die'',
                ''harm myself'', ''self harm'', ''hurt myself'', ''not want to live''].
         \<exists>pre suf. lower tbl text = pre @ k @ suf)"
    unfolding contains_crisis_keywords_set crisis_keywords_def by (rule refl)
next
  assume "\<exists>k\<in>set [''kill myself'', ''suicide'', ''end it all'', ''want to die'',
                ''harm myself'', ''self harm'', ''hurt myself'', ''not want to live''].
         \<exists>pre v suf. text = pre @ v @ suf \<and> map lower_char v = k"
  then have "\<exists>k\<in>set crisis_keywords.
         \<exists>pre v suf. text = pre @ v @ suf \<and> map lower_char v = k"
    unfolding crisis_keywords_def .
  then show "contains_crisis_keywords tbl text"
    using contains_crisis_keywords_piece by blast
next
  assume "is_ascii text"
  then show "contains_crisis_keywords tbl text \<longleftrightarrow>
         (\<exists>k\<in>set [''kill myself'', ''suicide'', ''end it all'', ''want to die'',
                   ''harm myself'', ''self harm'', ''hurt myself'', ''not want to live''].
            \<exists>pre v suf. text = pre @ v @ suf \<and> map lower_char v = k)"
    by (rule contains_crisis_keywords_ascii [unfolded crisis_keywords_def])
qed

text \<open>
  At the two examples of the specification and at the prompt with the Kelvin sign.
\<close>

theorem contains_crisis_keywords_iff_witness:
  "contains_crisis_keywords ex_tbl ''I want to KILL MYSELF'' \<and>
   is_ascii ''I had a rough day'' \<and>
   \<not> contains_crisis_keywords ex_tbl ''I had a rough day'' \<and>
   \<not> (\<exists>k\<in>set [''kill myself'', ''suicide'', ''end it all'', ''want to die'',
                  ''harm myself'', ''self harm'', ''hurt myself'', ''not want to live''].
         \<exists>pre v suf. ''I had a rough day'' = pre @ v @ suf \<and> map lower_char v = k) \<and>
   contains_crisis_keywords ex_tbl ex_kelvin_prompt \<and>
   (\<exists>k\<in>set [''kill myself'', ''suicide'', ''end it all'', ''want to die'',
               ''harm myself'', ''self harm'', ''hurt myself'', ''not want to live''].
      \<exists>pre suf. lower ex_tbl ex_kelvin_prompt = pre @ k @ suf)"
proof -
  have v: "map lower_char ''KILL MYSELF'' = ''kill myself''"
    by code_simp
  have s: "''I want to KILL MYSELF'' = ''I want to '' @ ''KILL MYSELF'' @ []"
    by simp
  have p: "\<exists>pre v suf. ''I want to KILL MYSELF'' = pre @ v @ suf \<and>
          map lower_char v = ''kill myself''"
    by (rule exI [of _ "''I want to ''"], rule exI [of _ "''KILL MYSELF''"],
        rule exI [of _ "[]"], rule conjI [OF s v])
  have e: "\<exists>k\<in>set [''kill myself'', ''suicide'', ''end it all'', ''want to die'',
                  ''harm myself'', ''self harm'', ''hurt myself'', ''not want to live''].
         \<exists>pre v suf. ''I want to KILL MYSELF'' = pre @ v @ suf \<and> map lower_char v = k"
  proof (rule bexI)
    show "\<exists>pre v suf. ''I want to KILL MYSELF'' = pre @ v @ suf \<and>
          map lower_char v = ''kill myself''"
      by (rule p)
    show "''kill myself'' \<in>
      set [''kill myself'', ''suicide'', ''end it all'', ''want to die'',
           ''harm myself'', ''self harm'', ''hurt myself'', ''not want to live'']"
      by simp
  qed
  have 1: "contains_crisis_keywords ex_tbl ''I want to KILL MYSELF''"
    by (rule contains_crisis_keywords_iff
        [of ex_tbl "''I want to KILL MYSELF''", THEN conjunct2, THEN conjunct1, THEN mp, OF e])
  have a: "is_ascii ''I had a rough day''"
    by code_simp
  have n: "\<not> contains_crisis_keywords ex_tbl ''I had a rough day''"
    by code_simp
  note iff = contains_crisis_keywords_iff
    [of ex_tbl "''I had a rough day''", THEN conjunct2, THEN conjunct2, THEN mp, OF a]
  have 2: "\<not> (\<exists>k\<in>set [''kill myself'', ''suicide'', ''end it all'', ''want to die'',
                  ''harm myself'', ''self harm'', ''hurt myself'', ''not want to live''].
         \<exists>pre v suf. ''I had a rough day'' = pre @ v @ suf \<and> map lower_char v = k)"
  proof
    assume "\<exists>k\<in>set [''kill myself'', ''suicide'', ''end it all'', ''want to die'',
                  ''harm myself'', ''self harm'', ''hurt myself'', ''not want to live''].
         \<exists>pre v suf. ''I had a rough day'' = pre @ v @ suf \<and> map lower_char v = k"
    then have "contains_crisis_keywords ex_tbl ''I had a rough day''"
      by (rule iffD2 [OF iff])
    with n show False
      by (rule notE)
  qed
  have k: "contains_crisis_keywords ex_tbl ex_kelvin_prompt"
    by code_simp
  have 3: "\<exists>k\<in>set [''kill myself'', ''suicide'', ''end it all'', ''want to die'',
               ''harm myself'', ''self harm'', ''hurt myself'', ''not want to live''].
      \<exists>pre suf. lower ex_tbl ex_kelvin_prompt = pre @ k @ suf"
    by (rule contains_crisis_keywords_iff
        [of ex_tbl ex_kelvin_prompt, THEN conjunct1, THEN iffD1, OF k])
  show ?thesis
    by (rule conjI [OF 1 conjI [OF a conjI [OF n conjI [OF 2 conjI [OF k 3]]]]])
qed

text \<open>
  Claim C3, amended. In every reachable state that has a conversation, the message at
  index 0 has the role \<^verbatim>\<open>system\<close>; the clear block keeps that message as the
  first of its two; and on a turn whose prompt is not flagged the window sent to the
  provider is the last six messages of the conversation with the prompt appended, which
  holds the system message exactly when the conversation had fewer than six messages
  before the prompt.
\<close>

theorem system_message_retained:
  "reachable tbl ac mc w \<Longrightarrow> session w = Some ms \<Longrightarrow>
     ms \<noteq> [] \<and> role (ms ! 0) = ''system'' \<and>
     (\<exists>g. main_clear ms = Inr [ms ! 0, g]) \<and>
     (\<not> contains_crisis_keywords tbl prompt \<longrightarrow>
        (\<exists>req. snd (fst (main_chat_input tbl ac mc provider prompt ms cs)) = cs @ [req] \<and>
               req_messages req = py_last 6 (ms @ [\<lparr>role = ''user'', content = prompt\<rparr>]) \<and>
               (ms ! 0 \<in> set (req_messages req) \<longleftrightarrow> length ms < 6)))"
proof -
  assume "reachable tbl ac mc w" and "session w = Some ms"
  then have inv: "conversation_inv ms"
    by (rule reachable_conversation_inv)
  then have 1: "ms \<noteq> []" and 2: "role (ms ! 0) = ''system''"
    by (simp_all add: conversation_inv_def)
  from 1 have 3: "\<exists>g. main_clear ms = Inr [ms ! 0, g]"
    by (cases ms) (simp_all add: main_clear_def)
  have 4: "\<exists>req. snd (fst (main_chat_input tbl ac mc provider prompt ms cs)) = cs @ [req] \<and>
               req_messages req = py_last 6 (ms @ [\<lparr>role = ''user'', content = prompt\<rparr>]) \<and>
               (ms ! 0 \<in> set (req_messages req) \<longleftrightarrow> length ms < 6)"
    if "\<not> contains_crisis_keywords tbl prompt"
    using that window_system [OF inv, of "\<lparr>role = ''user'', content = prompt\<rparr>"]
    by (simp add: calls_main_chat_input main_ai_response_provider snd_get_ai_response)
  from 1 2 3 4 show ?thesis by blast
qed

text \<open>At the conversation after one turn, which has four messages.\<close>

theorem system_message_retained_witness:
  "reachable ex_tbl ex_ac ex_mc (ex_world (take 1 ex_prompts)) \<and>
   session (ex_world (take 1 ex_prompts)) = Some (ex_conversation 1) \<and>
   \<not> contains_crisis_keywords ex_tbl ''What helps with sleep?'' \<and>
   ex_conversation 1 \<noteq> [] \<and> role (ex_conversation 1 ! 0) = ''system'' \<and>
   (\<exists>g. main_clear (ex_conversation 1) = Inr [ex_conversation 1 ! 0, g]) \<and>
   (\<exists>req. snd (fst (main_chat_input ex_tbl ex_ac ex_mc ex_provider ''What helps with sleep?''
                      (ex_conversation 1) [])) = [req] \<and>
          req_messages req =
            py_last 6 (ex_conversation 1 @ [\<lparr>role = ''user'', content = ''What helps with sleep?''\<rparr>]) \<and>
          ex_conversation 1 ! 0 \<in> set (req_messages req))"
proof -
  have r: "reachable ex_tbl ex_ac ex_mc (ex_world (take 1 ex_prompts))"
    by (rule reachable_ex_world)
  have s: "session (ex_world (take 1 ex_prompts)) = Some (ex_conversation 1)"
    by (simp add: session_ex_world_take)
  have n: "\<not> contains_crisis_keywords ex_tbl ''What helps with sleep?''"
    by (rule ex_prompts_not_crisis)
  have l: "length (ex_conversation 1) < 6"
    by (simp add: ex_conversation_def ex_prompts_def ex_turn_def initialize_session_state_def)
  from system_message_retained [OF r s, of "''What helps with sleep?''" ex_provider "[]"] n l
  have "ex_conversation 1 \<noteq> [] \<and> role (ex_conversation 1 ! 0) = ''system'' \<and>
   (\<exists>g. main_clear (ex_conversation 1) = Inr [ex_conversation 1 ! 0, g]) \<and>
   (\<exists>req. snd (fst (main_chat_input ex_tbl ex_ac ex_mc ex_provider ''What helps with sleep?''
                      (ex_conversation 1) [])) = [req] \<and>
          req_messages req =
            py_last 6 (ex_conversation 1 @ [\<lparr>role = ''user'', content = ''What helps with sleep?''\<rparr>]) \<and>
          ex_conversation 1 ! 0 \<in> set (req_messages req))"
    by auto
  with r s n show ?thesis by blast
qed

text \<open>
  Claim C3 as stated fails: after two turns the conversation has six messages, and on
  the third turn the window sent to the provider starts at the greeting; the system
  message is not in it.
\<close>

theorem window_drops_system_message:
  "reachable ex_tbl ex_ac ex_mc (ex_world (take 2 ex_prompts)) \<and>
   session (ex_world (take 2 ex_prompts)) = Some (ex_conversation 2) \<and>
   ex_conversation 2 ! 0 = \<lparr>role = ''system'', content = system_prompt ex_ac\<rparr> \<and>
   \<not> contains_crisis_keywords ex_tbl ''Tell me about mindfulness'' \<and>
   req_messages (last (snd (fst (main_chat_input ex_tbl ex_ac ex_mc ex_provider
       ''Tell me about mindfulness'' (ex_conversation 2) [])))) =
     [\<lparr>role = ''assistant'', content = greeting ex_ac\<rparr>,
      \<lparr>role = ''user'', content = ''I feel stressed at work''\<rparr>,
      \<lparr>role = ''assistant'', content = ''Reply to: I feel stressed at work''\<rparr>,
      \<lparr>role = ''user'', content = ''What helps with sleep?''\<rparr>,
      \<lparr>role = ''assistant'', content = ''Reply to: What helps with sleep?''\<rparr>,
      \<lparr>role = ''user'', content = ''Tell me about mindfulness''\<rparr>] \<and>
   ex_conversation 2 ! 0 \<notin>
     set (req_messages (last (snd (fst (main_chat_input ex_tbl ex_ac ex_mc ex_provider
       ''Tell me about mindfulness'' (ex_conversation 2) [])))))"
proof -
  have r: "reachable ex_tbl ex_ac ex_mc (ex_world (take 2 ex_prompts))"
    by (rule reachable_ex_world)
  have s: "session (ex_world (take 2 ex_prompts)) = Some (ex_conversation 2)"
    by (simp add: session_ex_world_take)
  have n: "\<not> contains_crisis_keywords ex_tbl ''Tell me about mindfulness''"
    by (rule ex_prompts_not_crisis)
  have w: "req_messages (last (snd (fst (main_chat_input ex_tbl ex_ac ex_mc ex_provider
       ''Tell me about mindfulness'' (ex_conversation 2) [])))) =
     [\<lparr>role = ''assistant'', content = greeting ex_ac\<rparr>,
      \<lparr>role = ''user'', content = ''I feel stressed at work''\<rparr>,
      \<lparr>role = ''assistant'', content = ''Reply to: I feel stressed at work''\<rparr>,
      \<lparr>role = ''user'', content = ''What helps with sleep?''\<rparr>,
      \<lparr>role = ''assistant'', content = ''Reply to: What helps with sleep?''\<rparr>,
      \<lparr>role = ''user'', content = ''Tell me about mindfulness''\<rparr>]"
    by (simp add: window_main_chat_input [OF n] ex_conversation_2 py_last_def)
  have z: "ex_conversation 2 ! 0 = \<lparr>role = ''system'', content = system_prompt ex_ac\<rparr>"
    by (simp add: ex_conversation_2)
  have "ex_conversation 2 ! 0 \<notin>
     set (req_messages (last (snd (fst (main_chat_input ex_tbl ex_ac ex_mc ex_provider
       ''Tell me about mindfulness'' (ex_conversation 2) [])))))"
    unfolding w z by simp
  with r s n w z show ?thesis by blast
qed

text \<open>
  Claim C4. When the provider raises an exception that is an instance of
  \<^verbatim>\<open>Exception\<close>, \<open>get_ai_response\<close> returns a text and raises nothing: the
  fixed marker followed by \<^verbatim>\<open>str(e)\<close>.
\<close>

theorem get_ai_response_catches:
  "is_Exception e \<Longrightarrow>
   provider \<lparr>req_model = default_model mc, req_messages = messages,
             req_max_tokens = max_tokens mc, req_temperature = temperature mc\<rparr> = Raises e \<Longrightarrow>
   fst (get_ai_response mc provider messages calls) =
     Inr (''I'm having trouble responding right now. Please try again later. Error: '' @ exn_str e)"
  by (simp add: get_ai_response_def Let_def fallback_marker_def)

text \<open>At the provider that fails with a connection error.\<close>

theorem get_ai_response_catches_witness:
  "is_Exception \<lparr>is_Exception = True, exn_str = ''Connection error.''\<rparr> \<and>
   ex_failing \<lparr>req_model = default_model ex_mc,
               req_messages = [\<lparr>role = ''user'', content = ''Thank you''\<rparr>],
               req_max_tokens = max_tokens ex_mc, req_temperature = temperature ex_mc\<rparr> =
     Raises \<lparr>is_Exception = True, exn_str = ''Connection error.''\<rparr> \<and>
   fst (get_ai_response ex_mc ex_failing [\<lparr>role = ''user'', content = ''Thank you''\<rparr>] []) =
     Inr ''I'm having trouble responding right now. Please try again later. Error: Connection error.''"
proof -
  have e: "is_Exception \<lparr>is_Exception = True, exn_str = ''Connection error.''\<rparr>"
    by simp
  have p: "ex_failing \<lparr>req_model = default_model ex_mc,
               req_messages = [\<lparr>role = ''user'', content = ''Thank you''\<rparr>],
               req_max_tokens = max_tokens ex_mc, req_temperature = temperature ex_mc\<rparr> =
     Raises \<lparr>is_Exception = True, exn_str = ''Connection error.''\<rparr>"
    by (simp add: ex_failing_def)
  from get_ai_response_catches [where provider = ex_failing and mc = ex_mc
        and messages = "[\<lparr>role = ''user'', content = ''Thank you''\<rparr>]" and calls = "[]", OF e p] e p
  show ?thesis
    by simp
qed

text \<open>
  Claim C5. For every configuration, the crisis reply holds the configured hotline
  and the configured crisis text line as substrings.
\<close>

theorem handle_crisis_response_numbers:
  "(\<exists>pre suf. handle_crisis_response cfg = pre @ crisis_hotline cfg @ suf) \<and>
   (\<exists>pre suf. handle_crisis_response cfg = pre @ crisis_text cfg @ suf)"
proof -
  define a where "a = ''\<newline>'' @
     ''    I hear that you're in tremendous pain, and I'm deeply concerned about your safety.\<newline>'' @
     ''\<newline>'' @
     ''    **Please reach out for immediate help:**\<newline>'' @
     ''    - **Crisis Hotline:** ''"
  define b where "b = ''\<newline>'' @ ''    - **Crisis Text Line:** ''"
  define c where "c = ''\<newline>'' @
     ''    - **Emergency Services:** 911\<newline>'' @
     ''\<newline>'' @
     ''    You don't have to go through this alone. There are people who want to help you right now.\<newline>'' @
     ''    ''"
  have eq: "handle_crisis_response cfg = a @ crisis_hotline cfg @ b @ crisis_text cfg @ c"
    by (simp add: handle_crisis_response_def a_def b_def c_def)
  have "handle_crisis_response cfg = (a @ crisis_hotline cfg @ b) @ crisis_text cfg @ c"
    by (simp add: eq)
  with eq show ?thesis by blast
qed

text \<open>
  Claim C6. For every configuration, a session without messages is initialized to
  two messages: the first has the role \<^verbatim>\<open>system\<close>, the second the role
  \<^verbatim>\<open>assistant\<close>.
\<close>

theorem initialize_session_state_roles:
  "length (initialize_session_state cfg None) = 2 \<and>
   role (initialize_session_state cfg None ! 0) = ''system'' \<and>
   role (initialize_session_state cfg None ! 1) = ''assistant''"
  by (simp add: initialize_session_state_def)

text \<open>
  Claim C7. On a non-empty conversation the clear block yields two messages: the
  first message of the conversation, unchanged, and the assistant's fixed greeting.
\<close>

theorem main_clear_keeps_first:
  "messages \<noteq> [] \<Longrightarrow>
     main_clear messages =
       Inr [messages ! 0,
            \<lparr>role = ''assistant'', content = ''Conversation cleared. How can I help you today?''\<rparr>]"
  by (cases messages) (simp_all add: main_clear_def)

text \<open>At the conversation after two turns.\<close>

theorem main_clear_keeps_first_witness:
  "ex_conversation 2 \<noteq> [] \<and>
   main_clear (ex_conversation 2) =
     Inr [\<lparr>role = ''system'', content = system_prompt ex_ac\<rparr>,
          \<lparr>role = ''assistant'', content = ''Conversation cleared. How can I help you today?''\<rparr>]"
proof -
  have n: "ex_conversation 2 \<noteq> []"
    by (simp add: ex_conversation_2)
  from main_clear_keeps_first [OF n] n show ?thesis
    by (simp add: ex_conversation_2)
qed

text \<open>
  Claim C8, amended. On a turn whose prompt is not flagged, one request is sent; its
  messages are a suffix of the conversation with the prompt appended, of length six or
  of the whole length if that is smaller. For a conversation of ten messages they are
  the messages at indices 5 to 9 followed by the prompt, in that order and each
  unchanged.
\<close>

theorem window_last_six:
  "\<not> contains_crisis_keywords tbl prompt \<Longrightarrow>
     \<exists>req. snd (fst (main_chat_input tbl ac mc provider prompt messages calls)) = calls @ [req] \<and>
           suffix (req_messages req) (messages @ [\<lparr>role = ''user'', content = prompt\<rparr>]) \<and>
           length (req_messages req) = min 6 (length messages + 1) \<and>
           (length messages = 10 \<longrightarrow>
              req_messages req =
                [messages ! 5, messages ! 6, messages ! 7, messages ! 8, messages ! 9,
                 \<lparr>role = ''user'', content = prompt\<rparr>])"
proof -
  assume nc: "\<not> contains_crisis_keywords tbl prompt"
  let ?u = "\<lparr>role = ''user'', content = prompt\<rparr>"
  let ?w = "py_last 6 (messages @ [?u])"
  have "snd (fst (main_chat_input tbl ac mc provider prompt messages calls)) =
          calls @ [\<lparr>req_model = default_model mc, req_messages = ?w,
                    req_max_tokens = max_tokens mc, req_temperature = temperature mc\<rparr>]"
    using nc by (simp add: calls_main_chat_input main_ai_response_provider snd_get_ai_response)
  moreover have "suffix ?w (messages @ [?u])"
    unfolding py_last_def by (rule suffix_drop)
  moreover have "length ?w = min 6 (length messages + 1)"
    by (simp add: py_last_def)
  moreover have "length messages = 10 \<longrightarrow>
      ?w = [messages ! 5, messages ! 6, messages ! 7, messages ! 8, messages ! 9, ?u]"
    by (simp add: window_10)
  ultimately show ?thesis by simp
qed

text \<open>At the conversation after four turns, which has ten messages.\<close>

theorem window_last_six_witness:
  "length (ex_conversation 4) = 10 \<and> \<not> contains_crisis_keywords ex_tbl ''Thank you'' \<and>
   (\<exists>req. snd (fst (main_chat_input ex_tbl ex_ac ex_mc ex_provider ''Thank you''
                      (ex_conversation 4) [])) = [req] \<and>
      suffix (req_messages req)
        (ex_conversation 4 @ [\<lparr>role = ''user'', content = ''Thank you''\<rparr>]) \<and>
      length (req_messages req) = 6 \<and>
      req_messages req =
        [\<lparr>role = ''assistant'', content = ''Reply to: What helps with sleep?''\<rparr>,
         \<lparr>role = ''user'', content = ''Tell me about mindfulness''\<rparr>,
         \<lparr>role = ''assistant'', content = ''Reply to: Tell me about mindfulness''\<rparr>,
         \<lparr>role = ''user'', content = ''How do I start?''\<rparr>,
         \<lparr>role = ''assistant'', content = ''Reply to: How do I start?''\<rparr>,
         \<lparr>role = ''user'', content = ''Thank you''\<rparr>])"
proof -
  have n: "\<not> contains_crisis_keywords ex_tbl ''Thank you''"
    by (rule ex_prompts_not_crisis)
  from window_last_six [OF n, of ex_ac ex_mc ex_provider "ex_conversation 4" "[]"]
  obtain req where req:
    "snd (fst (main_chat_input ex_tbl ex_ac ex_mc ex_provider ''Thank you'' (ex_conversation 4) [])) = [req]"
    "suffix (req_messages req) (ex_conversation 4 @ [\<lparr>role = ''user'', content = ''Thank you''\<rparr>])"
    "length (req_messages req) = min 6 (length (ex_conversation 4) + 1)"
    "length (ex_conversation 4) = 10 \<longrightarrow>
       req_messages req =
         [ex_conversation 4 ! 5, ex_conversation 4 ! 6, ex_conversation 4 ! 7,
          ex_conversation 4 ! 8, ex_conversation 4 ! 9,
          \<lparr>role = ''user'', content = ''Thank you''\<rparr>]"
    by auto
  from req(3) have "length (req_messages req) = 6"
    by (simp add: length_ex_conversation_4)
  moreover from req(4) have "req_messages req =
        [\<lparr>role = ''assistant'', content = ''Reply to: What helps with sleep?''\<rparr>,
         \<lparr>role = ''user'', content = ''Tell me about mindfulness''\<rparr>,
         \<lparr>role = ''assistant'', content = ''Reply to: Tell me about mindfulness''\<rparr>,
         \<lparr>role = ''user'', content = ''How do I start?''\<rparr>,
         \<lparr>role = ''assistant'', content = ''Reply to: How do I start?''\<rparr>,
         \<lparr>role = ''user'', content = ''Thank you''\<rparr>]"
    by (simp add: length_ex_conversation_4) (simp add: ex_conversation_4)
  ultimately show ?thesis
    using req(1,2) n length_ex_conversation_4 by blast
qed

text \<open>
  Claim C8 as stated fails: after four turns the conversation has ten messages, and
  on the fifth turn the window starts with the assistant's reply at index 5; the user
  message at index 4, which that reply answers, is outside the window.
\<close>

theorem window_splits_pair:
  "reachable ex_tbl ex_ac ex_mc (ex_world (take 4 ex_prompts)) \<and>
   session (ex_world (take 4 ex_prompts)) = Some (ex_conversation 4) \<and>
   length (ex_conversation 4) = 10 \<and>
   \<not> contains_crisis_keywords ex_tbl ''Thank you'' \<and>
   ex_conversation 4 ! 4 = \<lparr>role = ''user'', content = ''What helps with sleep?''\<rparr> \<and>
   ex_conversation 4 ! 5 =
     \<lparr>role = ''assistant'', content = ''Reply to: What helps with sleep?''\<rparr> \<and>
   req_messages (last (snd (fst (main_chat_input ex_tbl ex_ac ex_mc ex_provider
       ''Thank you'' (ex_conversation 4) [])))) =
     drop 5 (ex_conversation 4) @ [\<lparr>role = ''user'', content = ''Thank you''\<rparr>] \<and>
   ex_conversation 4 ! 5 \<in>
     set (req_messages (last (snd (fst (main_chat_input ex_tbl ex_ac ex_mc ex_provider
       ''Thank you'' (ex_conversation 4) []))))) \<and>
   ex_conversation 4 ! 4 \<notin>
     set (req_messages (last (snd (fst (main_chat_input ex_tbl ex_ac ex_mc ex_provider
       ''Thank you'' (ex_conversation 4) [])))))"
proof -
  have r: "reachable ex_tbl ex_ac ex_mc (ex_world (take 4 ex_prompts))"
    by (rule reachable_ex_world)
  have s: "session (ex_world (take 4 ex_prompts)) = Some (ex_conversation 4)"
    by (simp add: session_ex_world_take)
  have n: "\<not> contains_crisis_keywords ex_tbl ''Thank you''"
    by (rule ex_prompts_not_crisis)
  have u: "ex_conversation 4 ! 4 = \<lparr>role = ''user'', content = ''What helps with sleep?''\<rparr>"
    by (simp add: ex_conversation_4)
  have a: "ex_conversation 4 ! 5 =
     \<lparr>role = ''assistant'', content = ''Reply to: What helps with sleep?''\<rparr>"
    by (simp add: ex_conversation_4)
  have w: "req_messages (last (snd (fst (main_chat_input ex_tbl ex_ac ex_mc ex_provider
       ''Thank you'' (ex_conversation 4) [])))) =
     drop 5 (ex_conversation 4) @ [\<lparr>role = ''user'', content = ''Thank you''\<rparr>]"
    by (simp add: window_main_chat_input [OF n] py_last_def length_ex_conversation_4)
  have i: "ex_conversation 4 ! 5 \<in>
     set (drop 5 (ex_conversation 4) @ [\<lparr>role = ''user'', content = ''Thank you''\<rparr>])"
    unfolding a by (simp add: ex_conversation_4)
  have o: "ex_conversation 4 ! 4 \<notin>
     set (drop 5 (ex_conversation 4) @ [\<lparr>role = ''user'', content = ''Thank you''\<rparr>])"
    unfolding u by (simp add: ex_conversation_4)
  from r s n u a w i o length_ex_conversation_4 show ?thesis
    by simp
qed

text \<open>
  Claim C9. On a turn whose prompt is not flagged, the window sent to the provider is
  not empty and its last element is the user message appended for this turn.
\<close>

theorem window_ends_with_prompt:
  "\<not> contains_crisis_keywords tbl prompt \<Longrightarrow>
     \<exists>req. snd (fst (main_chat_input tbl ac mc provider prompt messages calls)) = calls @ [req] \<and>
           req_messages req \<noteq> [] \<and>
           last (req_messages req) = \<lparr>role = ''user'', content = prompt\<rparr>"
  by (simp add: calls_main_chat_input main_ai_response_provider snd_get_ai_response py_last_snoc)

text \<open>At the conversation after three turns.\<close>

theorem window_ends_with_prompt_witness:
  "\<not> contains_crisis_keywords ex_tbl ''How do I start?'' \<and>
   (\<exists>req. snd (fst (main_chat_input ex_tbl ex_ac ex_mc ex_provider ''How do I start?''
                      (ex_conversation 3) [])) = [req] \<and>
          req_messages req \<noteq> [] \<and>
          last (req_messages req) = \<lparr>role = ''user'', content = ''How do I start?''\<rparr>)"
proof -
  have n: "\<not> contains_crisis_keywords ex_tbl ''How do I start?''"
    by (rule ex_prompts_not_crisis)
  from window_ends_with_prompt [OF n, of ex_ac ex_mc ex_provider "ex_conversation 3" "[]"] n
  show ?thesis by simp
qed

text \<open>
  Claim C10. The crisis check reads the prompt alone: when the prompt is not flagged,
  the reply is that of \<open>get_ai_response\<close> on the last six messages and one request
  is sent, whatever the earlier messages hold.
\<close>

theorem crisis_check_on_prompt_only:
  "\<not> contains_crisis_keywords tbl prompt \<Longrightarrow>
     main_ai_response tbl ac mc provider prompt messages calls =
       get_ai_response mc provider (py_last 6 messages) calls \<and>
     length (snd (main_ai_response tbl ac mc provider prompt messages calls)) = length calls + 1"
  by (simp add: main_ai_response_provider snd_get_ai_response)

text \<open>At a conversation whose first user message holds a crisis phrase.\<close>

theorem crisis_check_on_prompt_only_witness:
  "contains_crisis_keywords ex_tbl (content (ex_after_crisis ! 2)) \<and>
   \<not> contains_crisis_keywords ex_tbl ''Thank you'' \<and>
   main_ai_response ex_tbl ex_ac ex_mc ex_provider ''Thank you''
       (ex_after_crisis @ [\<lparr>role = ''user'', content = ''Thank you''\<rparr>]) [] =
     get_ai_response ex_mc ex_provider
       (py_last 6 (ex_after_crisis @ [\<lparr>role = ''user'', content = ''Thank you''\<rparr>])) [] \<and>
   length (snd (main_ai_response ex_tbl ex_ac ex_mc ex_provider ''Thank you''
       (ex_after_crisis @ [\<lparr>role = ''user'', content = ''Thank you''\<rparr>]) [])) = 1"
proof -
  have c: "contains_crisis_keywords ex_tbl ''I want to die''"
    by code_simp
  have e: "content (ex_after_crisis ! 2) = ''I want to die''"
    by (simp add: ex_after_crisis_def initialize_session_state_def)
  have n: "\<not> contains_crisis_keywords ex_tbl ''Thank you''"
    by (rule ex_prompts_not_crisis)
  from crisis_check_on_prompt_only [OF n, of ex_ac ex_mc ex_provider
      "ex_after_crisis @ [\<lparr>role = ''user'', content = ''Thank you''\<rparr>]" "[]"] c e n
  show ?thesis by (simp add: snd_get_ai_response)
qed

end
